theory Spec2Isabelle
  imports Complex_Main
begin

section \<open>The two copies of the component\<close>

text \<open>
  The repository holds the component \<open>RFLinkPlanner\<close> twice: in \<open>src/App.js\<close> and in
  a second copy. The two agree on \<open>parseFreqHz\<close>, the geodesy functions,
  \<open>fresnelRadius\<close>, \<open>addTower\<close> and \<open>removeTower\<close>. They differ in how frequencies
  are compared (\<open>!==\<close> in \<open>src/App.js\<close>, a relative tolerance in the second copy), in
  the axes of the ellipse, in \<open>SCALE_FACTOR\<close> and in \<open>removeLink\<close>, which only the
  second copy defines. A definition with the suffix \<open>_App\<close> follows \<open>src/App.js\<close>
  where it differs; the one without follows the second copy.
\<close>

section \<open>JavaScript numbers\<close>

text \<open>
  The planner computes with JavaScript numbers. They are modelled by their special values
  (\<open>NaN\<close>, the two infinities) and, for every finite value, the real number it stands
  for: finite arithmetic is exact (no rounding to 53 bits, no overflow) and zero carries
  no sign (a zero divisor is read as \<open>+0\<close>). The special values follow ECMAScript.
\<close>

datatype jsnum = NaN | Num real | PInf | NInf

fun isNaN :: "jsnum \<Rightarrow> bool" where
  "isNaN NaN = True"
| "isNaN _ = False"

fun jneg :: "jsnum \<Rightarrow> jsnum" where
  "jneg NaN = NaN"
| "jneg (Num a) = Num (- a)"
| "jneg PInf = NInf"
| "jneg NInf = PInf"

fun jadd :: "jsnum \<Rightarrow> jsnum \<Rightarrow> jsnum" where
  "jadd (Num a) (Num b) = Num (a + b)"
| "jadd NaN _ = NaN"
| "jadd _ NaN = NaN"
| "jadd PInf NInf = NaN"
| "jadd NInf PInf = NaN"
| "jadd PInf _ = PInf"
| "jadd _ PInf = PInf"
| "jadd NInf _ = NInf"
| "jadd _ NInf = NInf"

definition jsub :: "jsnum \<Rightarrow> jsnum \<Rightarrow> jsnum" where
  "jsub x y = jadd x (jneg y)"

fun jmul :: "jsnum \<Rightarrow> jsnum \<Rightarrow> jsnum" where
  "jmul (Num a) (Num b) = Num (a * b)"
| "jmul NaN _ = NaN"
| "jmul _ NaN = NaN"
| "jmul PInf (Num b) = (if b = 0 then NaN else if 0 < b then PInf else NInf)"
| "jmul NInf (Num b) = (if b = 0 then NaN else if 0 < b then NInf else PInf)"
| "jmul (Num a) PInf = (if a = 0 then NaN else if 0 < a then PInf else NInf)"
| "jmul (Num a) NInf = (if a = 0 then NaN else if 0 < a then NInf else PInf)"
| "jmul PInf PInf = PInf"
| "jmul PInf NInf = NInf"
| "jmul NInf PInf = NInf"
| "jmul NInf NInf = PInf"

fun jdiv :: "jsnum \<Rightarrow> jsnum \<Rightarrow> jsnum" where
  "jdiv (Num a) (Num b) =
     (if b \<noteq> 0 then Num (a / b)
      else if a = 0 then NaN else if 0 < a then PInf else NInf)"
| "jdiv NaN _ = NaN"
| "jdiv _ NaN = NaN"
| "jdiv (Num a) PInf = Num 0"
| "jdiv (Num a) NInf = Num 0"
| "jdiv PInf (Num b) = (if 0 \<le> b then PInf else NInf)"
| "jdiv NInf (Num b) = (if 0 \<le> b then NInf else PInf)"
| "jdiv PInf PInf = NaN"
| "jdiv PInf NInf = NaN"
| "jdiv NInf PInf = NaN"
| "jdiv NInf NInf = NaN"

fun jabs :: "jsnum \<Rightarrow> jsnum" where
  "jabs NaN = NaN"
| "jabs (Num a) = Num \<bar>a\<bar>"
| "jabs PInf = PInf"
| "jabs NInf = PInf"

text \<open>The comparisons: every comparison with \<open>NaN\<close> is false, \<open>!==\<close> apart.\<close>

fun jle :: "jsnum \<Rightarrow> jsnum \<Rightarrow> bool" where
  "jle (Num a) (Num b) = (a \<le> b)"
| "jle NaN _ = False"
| "jle _ NaN = False"
| "jle NInf _ = True"
| "jle _ PInf = True"
| "jle PInf (Num b) = False"
| "jle PInf NInf = False"
| "jle (Num a) NInf = False"

fun jlt :: "jsnum \<Rightarrow> jsnum \<Rightarrow> bool" where
  "jlt (Num a) (Num b) = (a < b)"
| "jlt NaN _ = False"
| "jlt _ NaN = False"
| "jlt PInf _ = False"
| "jlt _ NInf = False"
| "jlt NInf (Num b) = True"
| "jlt NInf PInf = True"
| "jlt (Num a) PInf = True"

definition jge :: "jsnum \<Rightarrow> jsnum \<Rightarrow> bool" where
  "jge x y = jle y x"

definition jgt :: "jsnum \<Rightarrow> jsnum \<Rightarrow> bool" where
  "jgt x y = jlt y x"

definition jseq :: "jsnum \<Rightarrow> jsnum \<Rightarrow> bool" where
  "jseq x y = (\<not> isNaN x \<and> x = y)"

definition jsne :: "jsnum \<Rightarrow> jsnum \<Rightarrow> bool" where
  "jsne x y = (\<not> jseq x y)"

fun jmax :: "jsnum \<Rightarrow> jsnum \<Rightarrow> jsnum" where
  "jmax (Num a) (Num b) = Num (max a b)"
| "jmax NaN _ = NaN"
| "jmax _ NaN = NaN"
| "jmax PInf _ = PInf"
| "jmax _ PInf = PInf"
| "jmax NInf y = y"
| "jmax x NInf = x"

fun jsqrt :: "jsnum \<Rightarrow> jsnum" where
  "jsqrt (Num a) = (if a < 0 then NaN else Num (sqrt a))"
| "jsqrt PInf = PInf"
| "jsqrt _ = NaN"

fun jsin :: "jsnum \<Rightarrow> jsnum" where
  "jsin (Num a) = Num (sin a)"
| "jsin _ = NaN"

fun jcos :: "jsnum \<Rightarrow> jsnum" where
  "jcos (Num a) = Num (cos a)"
| "jcos _ = NaN"

fun jasin :: "jsnum \<Rightarrow> jsnum" where
  "jasin (Num a) = (if - 1 \<le> a \<and> a \<le> 1 then Num (arcsin a) else NaN)"
| "jasin _ = NaN"

text \<open>The angle of the point \<open>(x, y)\<close>, in \<open>(-\<pi>, \<pi>]\<close>, and \<open>0\<close> at the origin.\<close>

definition atan2 :: "real \<Rightarrow> real \<Rightarrow> real" where
  "atan2 y x =
     (if 0 < x then arctan (y / x)
      else if x < 0 then (if 0 \<le> y then arctan (y / x) + pi else arctan (y / x) - pi)
      else if 0 < y then pi / 2
      else if y < 0 then - (pi / 2)
      else 0)"

fun jatan2 :: "jsnum \<Rightarrow> jsnum \<Rightarrow> jsnum" where
  "jatan2 (Num y) (Num x) = Num (atan2 y x)"
| "jatan2 NaN _ = NaN"
| "jatan2 _ NaN = NaN"
| "jatan2 (Num y) PInf = Num 0"
| "jatan2 (Num y) NInf = Num (if 0 \<le> y then pi else - pi)"
| "jatan2 PInf (Num x) = Num (pi / 2)"
| "jatan2 NInf (Num x) = Num (- (pi / 2))"
| "jatan2 PInf PInf = Num (pi / 4)"
| "jatan2 PInf NInf = Num (3 * pi / 4)"
| "jatan2 NInf PInf = Num (- (pi / 4))"
| "jatan2 NInf NInf = Num (- (3 * pi / 4))"

text \<open>The remainder \<open>%\<close> takes the sign of the dividend (the quotient is truncated).\<close>

definition trunc :: "real \<Rightarrow> int" where
  "trunc x = (if 0 \<le> x then \<lfloor>x\<rfloor> else \<lceil>x\<rceil>)"

fun jmod :: "jsnum \<Rightarrow> jsnum \<Rightarrow> jsnum" where
  "jmod (Num a) (Num b) = (if b = 0 then NaN else Num (a - b * of_int (trunc (a / b))))"
| "jmod (Num a) PInf = Num a"
| "jmod (Num a) NInf = Num a"
| "jmod _ _ = NaN"

definition Math_PI :: jsnum where
  "Math_PI = Num pi"

section \<open>Strings\<close>

text \<open>
  Strings are lists of 8-bit characters; \<open>trim\<close>, \<open>toLowerCase\<close>, \<open>endsWith\<close> and
  \<open>parseFloat\<close> are ECMAScript's, on ASCII.
\<close>

definition isWhite :: "char \<Rightarrow> bool" where
  "isWhite c = (c \<in> set [CHR '' '', CHR 0x09, CHR 0x0A, CHR 0x0B, CHR 0x0C, CHR 0x0D])"

definition trim :: "string \<Rightarrow> string" where
  "trim s = rev (dropWhile isWhite (rev (dropWhile isWhite s)))"

definition lowerChar :: "char \<Rightarrow> char" where
  "lowerChar c =
     (if (65::nat) \<le> of_char c \<and> of_char c \<le> (90::nat) then char_of (of_char c + (32::nat)) else c)"

definition toLowerCase :: "string \<Rightarrow> string" where
  "toLowerCase s = map lowerChar s"

definition endsWith :: "string \<Rightarrow> string \<Rightarrow> bool" where
  "endsWith s suf = (length suf \<le> length s \<and> drop (length s - length suf) s = suf)"

definition isDigit :: "char \<Rightarrow> bool" where
  "isDigit c = ((48::nat) \<le> of_char c \<and> of_char c \<le> (57::nat))"

definition digitsVal :: "string \<Rightarrow> int" where
  "digitsVal ds = foldl (\<lambda>acc c. 10 * acc + (of_char c - 48)) 0 ds"

text \<open>The exponent part \<open>e[+-]digits\<close> of a decimal literal, \<open>0\<close> when there is none.\<close>

definition exponentPart :: "string \<Rightarrow> int" where
  "exponentPart s =
     (case s of
        [] \<Rightarrow> 0
      | c # r \<Rightarrow>
          if c = CHR ''e'' \<or> c = CHR ''E'' then
            (case r of
               [] \<Rightarrow> 0
             | d # r' \<Rightarrow>
                 if d = CHR ''-'' then
                   - digitsVal (takeWhile isDigit r')
                 else if d = CHR ''+'' then digitsVal (takeWhile isDigit r')
                 else digitsVal (takeWhile isDigit r))
          else 0)"

text \<open>
  \<open>parseFloat\<close>: leading white space is skipped, then the longest prefix that is a
  decimal literal (sign, digits, fraction, exponent, or \<open>Infinity\<close>) is read; \<open>NaN\<close>
  when there is none.
\<close>

definition parseFloat :: "string \<Rightarrow> jsnum" where
  "parseFloat str =
     (let s0 = dropWhile isWhite str;
          neg = (s0 \<noteq> [] \<and> hd s0 = CHR ''-'');
          s1 = (if s0 \<noteq> [] \<and> (hd s0 = CHR ''-'' \<or> hd s0 = CHR ''+'') then tl s0 else s0);
          ip = takeWhile isDigit s1;
          s2 = dropWhile isDigit s1;
          dot = (s2 \<noteq> [] \<and> hd s2 = CHR ''.'');
          fp = (if dot then takeWhile isDigit (tl s2) else []);
          s3 = (if dot then dropWhile isDigit (tl s2) else s2)
      in if ip = [] \<and> fp = [] then
           (if take 8 s1 = ''Infinity'' then (if neg then NInf else PInf) else NaN)
         else
           (let m = of_int (digitsVal (ip @ fp)) / 10 ^ length fp;
                e = exponentPart s3;
                v = (if 0 \<le> e then m * 10 ^ nat e else m / 10 ^ nat (- e))
            in Num (if neg then - v else v)))"

section \<open>Frequencies\<close>

definition parseFreqHz :: "string \<Rightarrow> jsnum" where
  "parseFreqHz freq =
     (if freq = [] then NaN
      else
        let s = toLowerCase (trim freq) in
        if endsWith s ''ghz'' then jmul (parseFloat s) (Num 1000000000)
        else if endsWith s ''mhz'' then jmul (parseFloat s) (Num 1000000)
        else if endsWith s ''hz'' then parseFloat s
        else
          let n = parseFloat s in
          if isNaN n then NaN
          else if jge n (Num 1) then jmul n (Num 1000000000) else jmul n (Num 1000000))"

section \<open>Geodesy and the Fresnel zone\<close>

record latlng =
  lat :: jsnum
  lng :: jsnum

definition distanceMeters :: "'a latlng_scheme \<Rightarrow> 'b latlng_scheme \<Rightarrow> jsnum" where
  "distanceMeters a b =
     (let R = Num 6371000;
          x1 = jdiv (jmul (lat a) Math_PI) (Num 180);
          x2 = jdiv (jmul (lat b) Math_PI) (Num 180);
          dx = jdiv (jmul (jsub (lat b) (lat a)) Math_PI) (Num 180);
          dy = jdiv (jmul (jsub (lng b) (lng a)) Math_PI) (Num 180);
          Dx = jsin (jdiv dx (Num 2));
          Dy = jsin (jdiv dy (Num 2));
          val = jadd (jmul Dx Dx) (jmul (jmul (jmul (jcos x1) (jcos x2)) Dy) Dy);
          c = jmul (Num 2) (jatan2 (jsqrt val) (jsqrt (jsub (Num 1) val)))
      in jmul R c)"

definition bearingBetween :: "'a latlng_scheme \<Rightarrow> 'b latlng_scheme \<Rightarrow> jsnum" where
  "bearingBetween a b =
     (let x1 = jdiv (jmul (lat a) Math_PI) (Num 180);
          x2 = jdiv (jmul (lat b) Math_PI) (Num 180);
          y1 = jdiv (jmul (lng a) Math_PI) (Num 180);
          y2 = jdiv (jmul (lng b) Math_PI) (Num 180);
          dy = jsub y2 y1;
          y = jmul (jsin dy) (jcos x2);
          x = jsub (jmul (jcos x1) (jsin x2)) (jmul (jmul (jsin x1) (jcos x2)) (jcos dy));
          \<theta> = jatan2 y x
      in jmod (jadd (jdiv (jmul \<theta> (Num 180)) Math_PI) (Num 360)) (Num 360))"

definition fresnelRadius :: "jsnum \<Rightarrow> jsnum \<Rightarrow> jsnum \<Rightarrow> jsnum" where
  "fresnelRadius lambda d1 d2 =
     (if jseq (jadd d1 d2) (Num 0) then Num 0
      else jsqrt (jdiv (jmul (jmul lambda d1) d2) (jadd d1 d2)))"

text \<open>\<open>computeSimpleFresnel\<close> returns the pair \<open>(totalDist, rMidMeters)\<close>.\<close>

definition computeSimpleFresnel ::
    "'a latlng_scheme \<Rightarrow> 'b latlng_scheme \<Rightarrow> jsnum \<Rightarrow> jsnum \<times> jsnum" where
  "computeSimpleFresnel a b freqHz =
     (let d = distanceMeters a b;
          lambda = jdiv (Num 300000000) freqHz;
          rMid = fresnelRadius lambda (jdiv d (Num 2)) (jdiv d (Num 2))
      in (d, rMid))"

text \<open>\<open>destPoint\<close> returns the pair \<open>(lat, lon)\<close>, in degrees.\<close>

definition destPoint :: "jsnum \<Rightarrow> jsnum \<Rightarrow> jsnum \<Rightarrow> jsnum \<Rightarrow> jsnum \<times> jsnum" where
  "destPoint lat0 lon0 bearingDeg dst =
     (let R = Num 6371000;
          brg = jdiv (jmul bearingDeg Math_PI) (Num 180);
          x1 = jdiv (jmul lat0 Math_PI) (Num 180);
          y1 = jdiv (jmul lon0 Math_PI) (Num 180);
          dRad = jdiv dst R;
          x2 = jasin (jadd (jmul (jsin x1) (jcos dRad))
                           (jmul (jmul (jcos x1) (jsin dRad)) (jcos brg)));
          y2 = jadd y1
                 (jatan2 (jmul (jmul (jsin brg) (jsin dRad)) (jcos x1))
                         (jsub (jcos dRad) (jmul (jsin x1) (jsin x2))))
      in (jdiv (jmul x2 (Num 180)) Math_PI, jdiv (jmul y2 (Num 180)) Math_PI))"

text \<open>
  The body of the sampling loop, the same in both files: the point of sample \<open>i\<close>,
  from the two semi-axes, the centre and the bearing.
\<close>

definition ellipsePoint ::
    "jsnum \<Rightarrow> jsnum \<Rightarrow> jsnum \<Rightarrow> jsnum \<Rightarrow> jsnum \<Rightarrow> nat \<Rightarrow> nat \<Rightarrow> jsnum \<times> jsnum" where
  "ellipsePoint semiMajor semiMinor centerLat centerLon bearing steps i =
     (let \<theta> = jmul (jmul (jdiv (Num (real i)) (Num (real steps))) (Num 2)) Math_PI;
          x = jmul semiMajor (jcos \<theta>);
          y = jmul semiMinor (jsin \<theta>);
          p1 = destPoint centerLat centerLon bearing x
      in destPoint (fst p1) (snd p1) (jadd bearing (Num 90)) y)"

text \<open>The loop \<open>for (let i = 0; i <= steps; i++) pts.push(...)\<close>.\<close>

function ellipseLoop ::
    "(nat \<Rightarrow> jsnum \<times> jsnum) \<Rightarrow> nat \<Rightarrow> nat \<Rightarrow> (jsnum \<times> jsnum) list \<Rightarrow> (jsnum \<times> jsnum) list" where
  "ellipseLoop body steps i pts =
     (if i \<le> steps then ellipseLoop body steps (Suc i) (pts @ [body i]) else pts)"
  by pat_completeness auto
termination
  by (relation "measure (\<lambda>(body, steps, i, pts). Suc steps - i)") auto

declare ellipseLoop.simps [simp del]

text \<open>The generator of the second copy (axes in metres).\<close>

definition generateFresnelEllipse ::
    "jsnum \<Rightarrow> jsnum \<Rightarrow> jsnum \<Rightarrow> jsnum \<Rightarrow> jsnum \<Rightarrow> nat \<Rightarrow> (jsnum \<times> jsnum) list" where
  "generateFresnelEllipse lat1 lon1 lat2 lon2 rMidMeters steps =
     (let d = distanceMeters \<lparr>lat = lat1, lng = lon1\<rparr> \<lparr>lat = lat2, lng = lon2\<rparr>;
          semiMajor = jdiv d (Num 2);
          semiMinor = rMidMeters;
          bearing = bearingBetween \<lparr>lat = lat1, lng = lon1\<rparr> \<lparr>lat = lat2, lng = lon2\<rparr>;
          centerLat = jdiv (jadd lat1 lat2) (Num 2);
          centerLon = jdiv (jadd lon1 lon2) (Num 2)
      in ellipseLoop (ellipsePoint semiMajor semiMinor centerLat centerLon bearing steps)
           steps 0 [])"

text \<open>The generator of \<open>src/App.js\<close> (axes shrunk: \<open>FIX #1\<close>).\<close>

definition generateFresnelEllipse_App ::
    "jsnum \<Rightarrow> jsnum \<Rightarrow> jsnum \<Rightarrow> jsnum \<Rightarrow> jsnum \<Rightarrow> nat \<Rightarrow> (jsnum \<times> jsnum) list" where
  "generateFresnelEllipse_App lat1 lon1 lat2 lon2 rMid steps =
     (let totalDist = distanceMeters \<lparr>lat = lat1, lng = lon1\<rparr> \<lparr>lat = lat2, lng = lon2\<rparr>;
          semiMajor = jdiv (jdiv totalDist (Num 2)) (Num 2000);
          semiMinor = jdiv rMid (Num 50);
          bearing = bearingBetween \<lparr>lat = lat1, lng = lon1\<rparr> \<lparr>lat = lat2, lng = lon2\<rparr>;
          centerLat = jdiv (jadd lat1 lat2) (Num 2);
          centerLon = jdiv (jadd lon1 lon2) (Num 2)
      in ellipseLoop (ellipsePoint semiMajor semiMinor centerLat centerLon bearing steps)
           steps 0 [])"

section \<open>Towers and links\<close>

record tower = latlng +
  id_t :: int
  freqStr :: string

record fresnel =
  polygonPoints :: "(jsnum \<times> jsnum) list"
  rMidMeters :: jsnum
  distance :: jsnum
  freq :: string

record link =
  id_l :: int
  aId :: int
  bId :: int
  freqStr_l :: string
  fresnel :: "fresnel option"

text \<open>
  The component's state: the two collections, the selections, the status message and
  the counter \<open>linkId.current\<close>. An event handler runs to its end before the next one
  starts, so each handler is a function from state to state.
\<close>

record planner =
  towers :: "tower list"
  links :: "link list"
  selectedTower :: "int option"
  selectedLink :: "int option"
  message :: string
  linkId :: int

definition initial :: planner where
  "initial = \<lparr>towers = [], links = [], selectedTower = None, selectedLink = None,
     message = ''Click map to add towers (default 5 GHz)'', linkId = 1\<rparr>"

definition initial_App :: planner where
  "initial_App = \<lparr>towers = [], links = [], selectedTower = None, selectedLink = None,
     message = ''Click map to add towers'', linkId = 1\<rparr>"

definition addTower :: "latlng \<Rightarrow> planner \<Rightarrow> planner" where
  "addTower pos s =
     (let prev = towers s;
          newId = (if length prev = 0 then 1 else Max (set (map id_t prev)) + 1)
      in s\<lparr>towers := prev @ [\<lparr>lat = lat pos, lng = lng pos, id_t = newId, freqStr = ''5 GHz''\<rparr>]\<rparr>)"

text \<open>A patch names the fields it overwrites (\<open>{ ...t, ...patch }\<close>).\<close>

record patch =
  p_id :: "int option"
  p_lat :: "jsnum option"
  p_lng :: "jsnum option"
  p_freqStr :: "string option"

definition applyPatch :: "tower \<Rightarrow> patch \<Rightarrow> tower" where
  "applyPatch t p =
     \<lparr>lat = (case p_lat p of None \<Rightarrow> lat t | Some v \<Rightarrow> v),
      lng = (case p_lng p of None \<Rightarrow> lng t | Some v \<Rightarrow> v),
      id_t = (case p_id p of None \<Rightarrow> id_t t | Some v \<Rightarrow> v),
      freqStr = (case p_freqStr p of None \<Rightarrow> freqStr t | Some v \<Rightarrow> v)\<rparr>"

text \<open>
  \<open>updateTower\<close> of the second copy. The callback of \<open>prevLinks.map\<close>
  gives \<open>null\<close> (\<open>None\<close>) or the link, and \<open>filter(Boolean)\<close> drops the nulls.
\<close>

definition updateTower_check :: "tower list \<Rightarrow> link \<Rightarrow> link option" where
  "updateTower_check updated lnk =
     (case (find (\<lambda>t. id_t t = aId lnk) updated, find (\<lambda>t. id_t t = bId lnk) updated) of
        (Some a, Some b) \<Rightarrow>
          (let fa = parseFreqHz (freqStr a); fb = parseFreqHz (freqStr b)
           in if isNaN fa \<or> isNaN fb \<or>
                 jgt (jabs (jsub fa fb)) (jmul (Num (1 / 1000000)) (jmax fa fb))
              then None else Some lnk)
      | _ \<Rightarrow> None)"

definition updateTower :: "int \<Rightarrow> patch \<Rightarrow> planner \<Rightarrow> planner" where
  "updateTower i p s =
     (let updated = map (\<lambda>t. if id_t t = i then applyPatch t p else t) (towers s)
      in s\<lparr>towers := updated,
           links := List.map_filter (updateTower_check updated) (links s),
           selectedLink := None\<rparr>)"

text \<open>\<open>updateTower\<close> of \<open>src/App.js\<close>: the frequencies are compared with \<open>!==\<close>.\<close>

definition updateTower_check_App :: "tower list \<Rightarrow> link \<Rightarrow> link option" where
  "updateTower_check_App updated lnk =
     (case (find (\<lambda>t. id_t t = aId lnk) updated, find (\<lambda>t. id_t t = bId lnk) updated) of
        (Some a, Some b) \<Rightarrow>
          (if jsne (parseFreqHz (freqStr a)) (parseFreqHz (freqStr b)) then None else Some lnk)
      | _ \<Rightarrow> None)"

definition updateTower_App :: "int \<Rightarrow> patch \<Rightarrow> planner \<Rightarrow> planner" where
  "updateTower_App i p s =
     (let updated = map (\<lambda>t. if id_t t = i then applyPatch t p else t) (towers s)
      in s\<lparr>towers := updated,
           links := List.map_filter (updateTower_check_App updated) (links s),
           selectedLink := None\<rparr>)"

definition removeTower :: "int \<Rightarrow> planner \<Rightarrow> planner" where
  "removeTower i s =
     s\<lparr>towers := filter (\<lambda>t. id_t t \<noteq> i) (towers s),
       links := filter (\<lambda>l. aId l \<noteq> i \<and> bId l \<noteq> i) (links s),
       selectedTower := None\<rparr>"

definition canLink :: "tower \<Rightarrow> tower \<Rightarrow> bool" where
  "canLink a b =
     (let fa = parseFreqHz (freqStr a); fb = parseFreqHz (freqStr b)
      in if isNaN fa \<or> isNaN fb then False
         else jle (jabs (jsub fa fb)) (jmul (Num (1 / 1000000)) (jmax fa fb)))"

text \<open>
  What a call of \<open>createLink\<close> returns. Every \<open>return\<close> of the source is a bare
  \<open>return;\<close> or the end of the body, so the source only ever builds \<open>Undefined\<close>;
  the other two constructors are the values the specification speaks of.
\<close>

datatype rejection = SELF_LINK | MISSING_TOWER | FREQUENCY_MISMATCH | DUPLICATE_LINK

datatype returned = Undefined | Rejected rejection | Created link

definition createLink :: "int \<Rightarrow> int \<Rightarrow> planner \<Rightarrow> returned \<times> planner" where
  "createLink a_id b_id s =
     (if a_id = b_id then (Undefined, s)
      else
        case (find (\<lambda>t. id_t t = a_id) (towers s), find (\<lambda>t. id_t t = b_id) (towers s)) of
          (Some a, Some b) \<Rightarrow>
            if \<not> canLink a b then (Undefined, s\<lparr>message := ''Frequencies do not match''\<rparr>)
            else if list_ex (\<lambda>l. (aId l = a_id \<and> bId l = b_id) \<or> (aId l = b_id \<and> bId l = a_id))
                      (links s)
            then (Undefined, s\<lparr>message := ''Link already exists''\<rparr>)
            else
              (Undefined,
               s\<lparr>links := links s @
                    [\<lparr>id_l = linkId s, aId = a_id, bId = b_id, freqStr_l = freqStr a,
                      fresnel = None\<rparr>],
                 linkId := linkId s + 1\<rparr>)
        | _ \<Rightarrow> (Undefined, s))"

definition createLink_App :: "int \<Rightarrow> int \<Rightarrow> planner \<Rightarrow> returned \<times> planner" where
  "createLink_App a_id b_id s =
     (if a_id = b_id then (Undefined, s)
      else
        case (find (\<lambda>t. id_t t = a_id) (towers s), find (\<lambda>t. id_t t = b_id) (towers s)) of
          (Some a, Some b) \<Rightarrow>
            if jsne (parseFreqHz (freqStr a)) (parseFreqHz (freqStr b))
            then (Undefined, s\<lparr>message := ''Frequencies do not match''\<rparr>)
            else if list_ex (\<lambda>l. (aId l = a_id \<and> bId l = b_id) \<or> (aId l = b_id \<and> bId l = a_id))
                      (links s)
            then (Undefined, s\<lparr>message := ''Link already exists''\<rparr>)
            else
              (Undefined,
               s\<lparr>links := links s @
                    [\<lparr>id_l = linkId s, aId = a_id, bId = b_id, freqStr_l = freqStr a,
                      fresnel = None\<rparr>],
                 linkId := linkId s + 1\<rparr>)
        | _ \<Rightarrow> (Undefined, s))"

definition removeLink :: "int \<Rightarrow> planner \<Rightarrow> planner" where
  "removeLink i s = s\<lparr>links := filter (\<lambda>l. id_l l \<noteq> i) (links s), selectedLink := None\<rparr>"

text \<open>
  \<open>onLinkClick\<close>, with the file's \<open>SCALE_FACTOR\<close> and generator as parameters
  (\<open>400\<close> and \<open>generateFresnelEllipse\<close>; \<open>1\<close> and \<open>generateFresnelEllipse_App\<close>).
\<close>

definition onLinkClick_with ::
    "jsnum \<Rightarrow> (jsnum \<Rightarrow> jsnum \<Rightarrow> jsnum \<Rightarrow> jsnum \<Rightarrow> jsnum \<Rightarrow> nat \<Rightarrow> (jsnum \<times> jsnum) list) \<Rightarrow>
     link \<Rightarrow> planner \<Rightarrow> planner" where
  "onLinkClick_with SCALE_FACTOR generate l s =
     (let s1 = s\<lparr>selectedLink := Some (id_l l)\<rparr> in
      case (find (\<lambda>t. id_t t = aId l) (towers s), find (\<lambda>t. id_t t = bId l) (towers s)) of
        (Some a, Some b) \<Rightarrow>
          (let freqHz = parseFreqHz (freqStr_l l);
               fresnelInfo = computeSimpleFresnel a b freqHz;
               pts = generate (lat a) (lng a) (lat b) (lng b)
                       (jmul (snd fresnelInfo) SCALE_FACTOR) 180
           in s1\<lparr>links := map (\<lambda>x. if id_l x = id_l l
                                then x\<lparr>fresnel := Some \<lparr>polygonPoints = pts,
                                       rMidMeters = snd fresnelInfo,
                                       distance = fst fresnelInfo,
                                       freq = freqStr_l l\<rparr>\<rparr>
                                else x) (links s)\<rparr>)
      | _ \<Rightarrow> s1)"

definition onLinkClick :: "link \<Rightarrow> planner \<Rightarrow> planner" where
  "onLinkClick = onLinkClick_with (Num 400) generateFresnelEllipse"

definition onLinkClick_App :: "link \<Rightarrow> planner \<Rightarrow> planner" where
  "onLinkClick_App = onLinkClick_with (Num 1) generateFresnelEllipse_App"

section \<open>Sequences of events\<close>

text \<open>
  The handlers the interface calls, as events. \<open>src/App.js\<close> calls \<open>removeLink\<close>
  but does not define it: there the click raises a \<open>ReferenceError\<close> and the state
  stays as it is.
\<close>

datatype event =
    AddTowerE latlng
  | UpdateTowerE int patch
  | RemoveTowerE int
  | CreateLinkE int int
  | RemoveLinkE int
  | LinkClickE link

fun handle :: "planner \<Rightarrow> event \<Rightarrow> planner" where
  "handle s (AddTowerE pos) = addTower pos s"
| "handle s (UpdateTowerE i p) = updateTower i p s"
| "handle s (RemoveTowerE i) = removeTower i s"
| "handle s (CreateLinkE a_id b_id) = snd (createLink a_id b_id s)"
| "handle s (RemoveLinkE i) = removeLink i s"
| "handle s (LinkClickE l) = onLinkClick l s"

fun handle_App :: "planner \<Rightarrow> event \<Rightarrow> planner" where
  "handle_App s (AddTowerE pos) = addTower pos s"
| "handle_App s (UpdateTowerE i p) = updateTower_App i p s"
| "handle_App s (RemoveTowerE i) = removeTower i s"
| "handle_App s (CreateLinkE a_id b_id) = snd (createLink_App a_id b_id s)"
| "handle_App s (RemoveLinkE i) = s"
| "handle_App s (LinkClickE l) = onLinkClick_App l s"

text \<open>An event that leaves the ids of the towers alone: every one but a patch of \<open>id\<close>.\<close>

fun keepsIds :: "event \<Rightarrow> bool" where
  "keepsIds (UpdateTowerE i p) = (p_id p = None)"
| "keepsIds _ = True"

text \<open>The patch the frequency input sends: \<open>{ freqStr: value }\<close>.\<close>

definition freqPatch :: "string \<Rightarrow> patch" where
  "freqPatch v = \<lparr>p_id = None, p_lat = None, p_lng = None, p_freqStr = Some v\<rparr>"

section \<open>The specification's notions\<close>

text \<open>Tower ids are unique and positive.\<close>

definition ids_ok :: "planner \<Rightarrow> bool" where
  "ids_ok s = (distinct (map id_t (towers s)) \<and> list_all (\<lambda>t. 0 < id_t t) (towers s))"

text \<open>Equal within relative tolerance \<open>1e-6\<close> of the larger value.\<close>

definition withinTolerance :: "real \<Rightarrow> real \<Rightarrow> bool" where
  "withinTolerance fa fb = (\<bar>fa - fb\<bar> \<le> (1 / 1000000) * max fa fb)"

text \<open>The negation of the test \<open>parseFreqHz(a.freqStr) !== parseFreqHz(b.freqStr)\<close>.\<close>

definition sameFrequency_App :: "tower \<Rightarrow> tower \<Rightarrow> bool" where
  "sameFrequency_App a b = jseq (parseFreqHz (freqStr a)) (parseFreqHz (freqStr b))"

text \<open>
  The classified outcome of \<open>createLink\<close> in the specification's words, for a given
  notion of compatible frequencies: \<open>SELF_LINK\<close> if the ids are equal,
  \<open>MISSING_TOWER\<close> if either id is absent, \<open>FREQUENCY_MISMATCH\<close> if the frequencies
  are not compatible, \<open>DUPLICATE_LINK\<close> if a link over the same unordered pair exists,
  and the new link otherwise.
\<close>

definition outcome :: "(tower \<Rightarrow> tower \<Rightarrow> bool) \<Rightarrow> int \<Rightarrow> int \<Rightarrow> planner \<Rightarrow> returned" where
  "outcome compatible a_id b_id s =
     (if a_id = b_id then Rejected SELF_LINK
      else
        case (find (\<lambda>t. id_t t = a_id) (towers s), find (\<lambda>t. id_t t = b_id) (towers s)) of
          (Some a, Some b) \<Rightarrow>
            if \<not> compatible a b then Rejected FREQUENCY_MISMATCH
            else if list_ex (\<lambda>l. (aId l = a_id \<and> bId l = b_id) \<or> (aId l = b_id \<and> bId l = a_id))
                      (links s)
            then Rejected DUPLICATE_LINK
            else Created \<lparr>id_l = linkId s, aId = a_id, bId = b_id, freqStr_l = freqStr a,
                   fresnel = None\<rparr>
        | _ \<Rightarrow> Rejected MISSING_TOWER)"

text \<open>What each outcome does to the state.\<close>

definition effect :: "returned \<Rightarrow> planner \<Rightarrow> planner" where
  "effect r s =
     (case r of
        Rejected FREQUENCY_MISMATCH \<Rightarrow> s\<lparr>message := ''Frequencies do not match''\<rparr>
      | Rejected DUPLICATE_LINK \<Rightarrow> s\<lparr>message := ''Link already exists''\<rparr>
      | Created l \<Rightarrow> s\<lparr>links := links s @ [l], linkId := linkId s + 1\<rparr>
      | _ \<Rightarrow> s)"




text \<open>
  The sample of index \<open>i\<close> in the specification's words: the centre is the degree-wise
  midpoint, the angle is \<open>(i / steps) * 2\<pi>\<close>, the along-path offset is
  \<open>semiMajor * cos(angle)\<close>, the cross-path offset \<open>semiMinor * sin(angle)\<close>, and the
  point is projected along the bearing and then across it.
\<close>

definition ellipseSample ::
    "jsnum \<Rightarrow> jsnum \<Rightarrow> jsnum \<Rightarrow> jsnum \<Rightarrow> jsnum \<Rightarrow> jsnum \<Rightarrow> nat \<Rightarrow> nat \<Rightarrow> jsnum \<times> jsnum" where
  "ellipseSample lat1 lon1 lat2 lon2 semiMajor semiMinor steps i =
     (let centerLat = jdiv (jadd lat1 lat2) (Num 2);
          centerLon = jdiv (jadd lon1 lon2) (Num 2);
          bearing = bearingBetween \<lparr>lat = lat1, lng = lon1\<rparr> \<lparr>lat = lat2, lng = lon2\<rparr>;
          angle = jmul (jdiv (Num (real i)) (Num (real steps))) (Num (2 * pi));
          x = jmul semiMajor (jcos angle);
          y = jmul semiMinor (jsin angle);
          p1 = destPoint centerLat centerLon bearing x
      in destPoint (fst p1) (snd p1) (jadd bearing (Num 90)) y)"

text \<open>
  Every link of the store passes the test \<open>updateTower\<close> applies: both endpoints are
  towers of the store and their frequencies match.
\<close>

definition linksValid :: "planner \<Rightarrow> bool" where
  "linksValid s = list_all (\<lambda>l. updateTower_check (towers s) l = Some l) (links s)"

definition linksValid_App :: "planner \<Rightarrow> bool" where
  "linksValid_App s = list_all (\<lambda>l. updateTower_check_App (towers s) l = Some l) (links s)"

section \<open>Sample stores\<close>

text \<open>
  Stores the handlers build from the initial one: three towers at the default \<open>5 GHz\<close>
  with the links 1-2 and 2-3; two towers whose frequencies differ by one hertz; two linked
  towers.
\<close>

definition threeTowers :: planner where
  "threeTowers =
     snd (createLink 2 3 (snd (createLink 1 2
       (addTower \<lparr>lat = Num 1, lng = Num 1\<rparr> (addTower \<lparr>lat = Num 0, lng = Num 1\<rparr>
         (addTower \<lparr>lat = Num 0, lng = Num 0\<rparr> initial))))))"

definition threeTowers_App :: planner where
  "threeTowers_App =
     snd (createLink_App 2 3 (snd (createLink_App 1 2
       (addTower \<lparr>lat = Num 1, lng = Num 1\<rparr> (addTower \<lparr>lat = Num 0, lng = Num 1\<rparr>
         (addTower \<lparr>lat = Num 0, lng = Num 0\<rparr> initial_App))))))"

definition nearTowers_App :: planner where
  "nearTowers_App =
     updateTower_App 2 (freqPatch ''5000000001 hz'')
       (addTower \<lparr>lat = Num 0, lng = Num 1\<rparr> (addTower \<lparr>lat = Num 0, lng = Num 0\<rparr> initial_App))"

definition pair_App :: planner where
  "pair_App =
     snd (createLink_App 1 2
       (addTower \<lparr>lat = Num 0, lng = Num 1\<rparr> (addTower \<lparr>lat = Num 0, lng = Num 0\<rparr> initial_App)))"

definition nearTowers :: planner where
  "nearTowers =
     updateTower 2 (freqPatch ''5000000001 hz'')
       (addTower \<lparr>lat = Num 0, lng = Num 1\<rparr> (addTower \<lparr>lat = Num 0, lng = Num 0\<rparr> initial))"

text \<open>Two towers one degree apart, both set to \<open>0 hz\<close>, and the link between them.\<close>

definition zeroHertz :: planner where
  "zeroHertz =
     snd (createLink 1 2
       (updateTower 2 (freqPatch ''0 hz'') (updateTower 1 (freqPatch ''0 hz'')
         (addTower \<lparr>lat = Num 0, lng = Num 1\<rparr> (addTower \<lparr>lat = Num 0, lng = Num 0\<rparr> initial)))))"

section \<open>Numbers: basic facts\<close>


lemma jle_not_jgt: "jle x y \<Longrightarrow> \<not> jgt x y"
  by (cases x; cases y) (simp_all add: jgt_def)

section \<open>The store: supporting lemmas\<close>

lemma find_id_None: "find (\<lambda>t. id_t t = j) ts = None \<longleftrightarrow> j \<notin> id_t ` set ts"
  by (auto simp: find_None_iff)

lemma find_append_Some: "find P xs = Some y \<Longrightarrow> find P (xs @ ys) = Some y"
  by (induction xs) (auto split: if_splits)

lemma find_filter_same: "(\<And>x. P x \<Longrightarrow> Q x) \<Longrightarrow> find P (filter Q xs) = find P xs"
  by (induction xs) auto


lemma map_filter_check:
  assumes "\<And>l l'. f l = Some l' \<Longrightarrow> l' = l"
  shows "List.map_filter f ls = filter (\<lambda>l. f l \<noteq> None) ls"
  using assms by (induction ls) (auto simp: List.map_filter_simps split: option.splits)

subsection \<open>\<open>createLink\<close>\<close>

lemma createLink_effect:
  "createLink a_id b_id s = (Undefined, effect (outcome canLink a_id b_id s) s)"
  by (auto simp: createLink_def outcome_def effect_def split: option.splits)

lemma createLink_App_effect:
  "createLink_App a_id b_id s = (Undefined, effect (outcome sameFrequency_App a_id b_id s) s)"
  by (auto simp: createLink_App_def outcome_def effect_def sameFrequency_App_def jsne_def
           split: option.splits)

lemma effect_rejected_frame:
  "towers (effect (Rejected r) s) = towers s \<and> links (effect (Rejected r) s) = links s \<and>
   linkId (effect (Rejected r) s) = linkId s \<and>
   selectedTower (effect (Rejected r) s) = selectedTower s \<and>
   selectedLink (effect (Rejected r) s) = selectedLink s"
  by (cases r) (simp_all add: effect_def)

lemma effect_created:
  "effect (Created l) s = s\<lparr>links := links s @ [l], linkId := linkId s + 1\<rparr>"
  by (simp add: effect_def)

lemma outcome_not_Undefined: "outcome c a_id b_id s \<noteq> Undefined"
  by (auto simp: outcome_def split: option.splits)

subsection \<open>\<open>updateTower\<close>\<close>

lemma updateTower_check_Some: "updateTower_check ts l = Some l' \<Longrightarrow> l' = l"
  by (auto simp: updateTower_check_def Let_def split: option.splits if_splits)

lemma updateTower_check_App_Some: "updateTower_check_App ts l = Some l' \<Longrightarrow> l' = l"
  by (auto simp: updateTower_check_App_def split: option.splits if_splits)

lemma towers_updateTower:
  "towers (updateTower i p s) = map (\<lambda>t. if id_t t = i then applyPatch t p else t) (towers s)"
  by (simp add: updateTower_def Let_def)

lemma towers_updateTower_App:
  "towers (updateTower_App i p s) =
     map (\<lambda>t. if id_t t = i then applyPatch t p else t) (towers s)"
  by (simp add: updateTower_App_def Let_def)

lemma links_updateTower:
  "links (updateTower i p s) =
     filter (\<lambda>l. updateTower_check (towers (updateTower i p s)) l \<noteq> None) (links s)"
  by (simp add: updateTower_def Let_def map_filter_check[OF updateTower_check_Some])

lemma links_updateTower_App:
  "links (updateTower_App i p s) =
     filter (\<lambda>l. updateTower_check_App (towers (updateTower_App i p s)) l \<noteq> None) (links s)"
  by (simp add: updateTower_App_def Let_def map_filter_check[OF updateTower_check_App_Some])



subsection \<open>Unique, positive tower ids\<close>

lemma newId_fresh:
  assumes "ts \<noteq> []"
  shows "Max (set (map id_t ts)) + 1 \<notin> set (map id_t ts)"
proof
  assume "Max (set (map id_t ts)) + 1 \<in> set (map id_t ts)"
  then have "Max (set (map id_t ts)) + 1 \<le> Max (set (map id_t ts))"
    by (intro Max_ge) auto
  then show False by simp
qed

lemma newId_pos:
  assumes "ts \<noteq> []" "list_all (\<lambda>t. 0 < id_t t) ts"
  shows "0 < Max (set (map id_t ts)) + 1"
proof -
  obtain t where t: "t \<in> set ts"
    using assms(1) by (cases ts) auto
  then have "id_t t \<le> Max (set (map id_t ts))"
    by (intro Max_ge) auto
  moreover have "0 < id_t t"
    using assms(2) t by (simp add: list_all_iff)
  ultimately show ?thesis by simp
qed

lemma ids_ok_addTower: "ids_ok s \<Longrightarrow> ids_ok (addTower pos s)"
  using newId_fresh[of "towers s"] newId_pos[of "towers s"]
  by (auto simp: ids_ok_def addTower_def Let_def)

lemma ids_ok_removeTower: "ids_ok s \<Longrightarrow> ids_ok (removeTower i s)"
  by (auto simp: ids_ok_def removeTower_def distinct_map_filter list_all_iff)

lemma ids_patch:
  "p_id p = None \<Longrightarrow>
   map id_t (map (\<lambda>t. if id_t t = i then applyPatch t p else t) ts) = map id_t ts"
  by (induction ts) (simp_all add: applyPatch_def)

lemma pos_patch:
  "p_id p = None \<Longrightarrow>
   list_all (\<lambda>t. 0 < id_t t) (map (\<lambda>t. if id_t t = i then applyPatch t p else t) ts) =
   list_all (\<lambda>t. 0 < id_t t) ts"
  by (induction ts) (simp_all add: applyPatch_def)

lemma ids_ok_updateTower: "p_id p = None \<Longrightarrow> ids_ok s \<Longrightarrow> ids_ok (updateTower i p s)"
  using ids_patch[of p i "towers s"] pos_patch[of p i "towers s"]
  by (simp add: ids_ok_def towers_updateTower del: map_map)

lemma ids_ok_updateTower_App: "p_id p = None \<Longrightarrow> ids_ok s \<Longrightarrow> ids_ok (updateTower_App i p s)"
  using ids_patch[of p i "towers s"] pos_patch[of p i "towers s"]
  by (simp add: ids_ok_def towers_updateTower_App del: map_map)

lemma towers_effect: "towers (effect r s) = towers s"
  by (simp add: effect_def split: returned.splits rejection.splits)

lemma towers_onLinkClick_with: "towers (onLinkClick_with k g l s) = towers s"
  by (simp add: onLinkClick_with_def Let_def split: option.splits)

lemma ids_ok_handle: "keepsIds ev \<Longrightarrow> ids_ok s \<Longrightarrow> ids_ok (handle s ev)"
  by (cases ev)
     (simp_all add: ids_ok_addTower ids_ok_removeTower ids_ok_updateTower,
      simp_all add: ids_ok_def createLink_effect towers_effect removeLink_def onLinkClick_def
        towers_onLinkClick_with)

lemma ids_ok_handle_App: "keepsIds ev \<Longrightarrow> ids_ok s \<Longrightarrow> ids_ok (handle_App s ev)"
  by (cases ev)
     (simp_all add: ids_ok_addTower ids_ok_removeTower ids_ok_updateTower_App,
      simp_all add: ids_ok_def createLink_App_effect towers_effect onLinkClick_App_def
        towers_onLinkClick_with)

lemma ids_ok_events: "list_all keepsIds evs \<Longrightarrow> ids_ok s \<Longrightarrow> ids_ok (foldl handle s evs)"
  by (induction evs arbitrary: s) (simp_all add: ids_ok_handle)

lemma ids_ok_events_App:
  "list_all keepsIds evs \<Longrightarrow> ids_ok s \<Longrightarrow> ids_ok (foldl handle_App s evs)"
  by (induction evs arbitrary: s) (simp_all add: ids_ok_handle_App)

subsection \<open>The links of a reachable store are valid\<close>

lemma check_fresnel:
  "updateTower_check ts l = Some l \<Longrightarrow>
   updateTower_check ts (l\<lparr>fresnel := f\<rparr>) = Some (l\<lparr>fresnel := f\<rparr>)"
  by (auto simp: updateTower_check_def Let_def split: option.splits if_splits)

lemma check_App_fresnel:
  "updateTower_check_App ts l = Some l \<Longrightarrow>
   updateTower_check_App ts (l\<lparr>fresnel := f\<rparr>) = Some (l\<lparr>fresnel := f\<rparr>)"
  by (auto simp: updateTower_check_App_def split: option.splits if_splits)

lemma check_append:
  "updateTower_check ts l = Some l \<Longrightarrow> updateTower_check (ts @ us) l = Some l"
  by (auto simp: updateTower_check_def Let_def find_append_Some split: option.splits if_splits)

lemma check_App_append:
  "updateTower_check_App ts l = Some l \<Longrightarrow> updateTower_check_App (ts @ us) l = Some l"
  by (auto simp: updateTower_check_App_def find_append_Some split: option.splits if_splits)

lemma find_without:
  "j \<noteq> i \<Longrightarrow>
   find (\<lambda>t. id_t t = j) (filter (\<lambda>t. id_t t \<noteq> i) ts) = find (\<lambda>t. id_t t = j) ts"
  by (intro find_filter_same) auto

lemma check_filter:
  "aId l \<noteq> i \<Longrightarrow> bId l \<noteq> i \<Longrightarrow>
   updateTower_check (filter (\<lambda>t. id_t t \<noteq> i) ts) l = updateTower_check ts l"
  by (simp add: updateTower_check_def find_without)

lemma check_App_filter:
  "aId l \<noteq> i \<Longrightarrow> bId l \<noteq> i \<Longrightarrow>
   updateTower_check_App (filter (\<lambda>t. id_t t \<noteq> i) ts) l = updateTower_check_App ts l"
  by (simp add: updateTower_check_App_def find_without)

lemma check_new_link:
  assumes "find (\<lambda>t. id_t t = a_id) ts = Some a" "find (\<lambda>t. id_t t = b_id) ts = Some b"
    "canLink a b"
  shows "updateTower_check ts
           \<lparr>id_l = n, aId = a_id, bId = b_id, freqStr_l = f, fresnel = None\<rparr> =
         Some \<lparr>id_l = n, aId = a_id, bId = b_id, freqStr_l = f, fresnel = None\<rparr>"
  using assms jle_not_jgt
  by (auto simp: updateTower_check_def canLink_def Let_def split: if_splits)

lemma check_App_new_link:
  assumes "find (\<lambda>t. id_t t = a_id) ts = Some a" "find (\<lambda>t. id_t t = b_id) ts = Some b"
    "\<not> jsne (parseFreqHz (freqStr a)) (parseFreqHz (freqStr b))"
  shows "updateTower_check_App ts
           \<lparr>id_l = n, aId = a_id, bId = b_id, freqStr_l = f, fresnel = None\<rparr> =
         Some \<lparr>id_l = n, aId = a_id, bId = b_id, freqStr_l = f, fresnel = None\<rparr>"
  using assms by (auto simp: updateTower_check_App_def)

lemma linksValid_addTower: "linksValid s \<Longrightarrow> linksValid (addTower pos s)"
  by (auto simp: linksValid_def addTower_def Let_def list_all_iff check_append)

lemma linksValid_updateTower: "linksValid (updateTower i p s)"
  unfolding linksValid_def list_all_iff links_updateTower
  using updateTower_check_Some by fastforce

lemma linksValid_removeTower: "linksValid s \<Longrightarrow> linksValid (removeTower i s)"
  by (auto simp: linksValid_def removeTower_def list_all_iff check_filter)

lemma linksValid_removeLink: "linksValid s \<Longrightarrow> linksValid (removeLink i s)"
  by (auto simp: linksValid_def removeLink_def list_all_iff)

lemma linksValid_createLink: "linksValid s \<Longrightarrow> linksValid (snd (createLink a_id b_id s))"
  by (auto simp: linksValid_def createLink_def list_all_iff check_new_link split: option.splits)

lemma linksValid_onLinkClick: "linksValid s \<Longrightarrow> linksValid (onLinkClick_with k g l s)"
  by (auto simp: linksValid_def onLinkClick_with_def Let_def list_all_iff check_fresnel
           split: option.splits)

lemma linksValid_handle: "linksValid s \<Longrightarrow> linksValid (handle s ev)"
  by (cases ev)
     (simp_all add: linksValid_addTower linksValid_updateTower linksValid_removeTower
        linksValid_createLink linksValid_removeLink linksValid_onLinkClick onLinkClick_def)

lemma linksValid_events: "linksValid s \<Longrightarrow> linksValid (foldl handle s evs)"
  by (induction evs arbitrary: s) (simp_all add: linksValid_handle)

lemma linksValid_initial: "linksValid initial"
  by (simp add: linksValid_def initial_def)

lemma linksValid_App_addTower: "linksValid_App s \<Longrightarrow> linksValid_App (addTower pos s)"
  by (auto simp: linksValid_App_def addTower_def Let_def list_all_iff check_App_append)

lemma linksValid_App_updateTower: "linksValid_App (updateTower_App i p s)"
  unfolding linksValid_App_def list_all_iff links_updateTower_App
  using updateTower_check_App_Some by fastforce

lemma linksValid_App_removeTower: "linksValid_App s \<Longrightarrow> linksValid_App (removeTower i s)"
  by (auto simp: linksValid_App_def removeTower_def list_all_iff check_App_filter)

lemma linksValid_App_createLink:
  "linksValid_App s \<Longrightarrow> linksValid_App (snd (createLink_App a_id b_id s))"
  by (auto simp: linksValid_App_def createLink_App_def list_all_iff check_App_new_link
           split: option.splits)

lemma linksValid_App_onLinkClick:
  "linksValid_App s \<Longrightarrow> linksValid_App (onLinkClick_with k g l s)"
  by (auto simp: linksValid_App_def onLinkClick_with_def Let_def list_all_iff check_App_fresnel
           split: option.splits)

lemma linksValid_App_handle: "linksValid_App s \<Longrightarrow> linksValid_App (handle_App s ev)"
  by (cases ev)
     (simp_all add: linksValid_App_addTower linksValid_App_updateTower
        linksValid_App_removeTower linksValid_App_createLink linksValid_App_onLinkClick
        onLinkClick_App_def)

lemma linksValid_App_events: "linksValid_App s \<Longrightarrow> linksValid_App (foldl handle_App s evs)"
  by (induction evs arbitrary: s) (simp_all add: linksValid_App_handle)

lemma linksValid_App_initial: "linksValid_App initial_App"
  by (simp add: linksValid_App_def initial_App_def)

section \<open>The claims about the store\<close>

subsection \<open>Tower ids\<close>

text \<open>
  C1 (as the code has it): \<open>addTower\<close> keeps no counter. The new tower gets the id
  \<open>1\<close> in an empty store and otherwise the largest id of the store plus one, computed
  from the towers present. Along every sequence of events that leaves ids alone (every
  sequence of \<open>addTower\<close> and \<open>removeTower\<close> among them), in either file, the ids of
  the store are distinct and positive, before and after the next \<open>addTower\<close>.
\<close>

theorem addTower_id_from_max:
  assumes "list_all keepsIds evs" and "s = foldl handle initial evs \<or> s = foldl handle_App initial_App evs"
  shows "ids_ok s \<and>
     towers (addTower pos s) =
       towers s @
         [\<lparr>lat = lat pos, lng = lng pos,
           id_t = (if towers s = [] then 1 else Max (set (map id_t (towers s))) + 1),
           freqStr = ''5 GHz''\<rparr>] \<and>
     ids_ok (addTower pos s)"
proof -
  have "ids_ok initial" "ids_ok initial_App"
    by (simp_all add: ids_ok_def initial_def initial_App_def)
  then have "ids_ok s"
    using assms ids_ok_events ids_ok_events_App by blast
  then show ?thesis
    by (simp add: ids_ok_addTower) (simp add: addTower_def Let_def)
qed

theorem addTower_id_from_max_witness:
  "map id_t (towers (foldl handle initial
      [AddTowerE \<lparr>lat = Num 0, lng = Num 0\<rparr>, AddTowerE \<lparr>lat = Num 0, lng = Num 1\<rparr>,
       RemoveTowerE 1])) = [2] \<and>
   map id_t (towers (addTower \<lparr>lat = Num 1, lng = Num 1\<rparr> (foldl handle initial
      [AddTowerE \<lparr>lat = Num 0, lng = Num 0\<rparr>, AddTowerE \<lparr>lat = Num 0, lng = Num 1\<rparr>,
       RemoveTowerE 1]))) = [2, 3] \<and>
   ids_ok (addTower \<lparr>lat = Num 1, lng = Num 1\<rparr> (foldl handle initial
      [AddTowerE \<lparr>lat = Num 0, lng = Num 0\<rparr>, AddTowerE \<lparr>lat = Num 0, lng = Num 1\<rparr>,
       RemoveTowerE 1]))"
proof -
  have k: "list_all keepsIds
      [AddTowerE \<lparr>lat = Num 0, lng = Num 0\<rparr>, AddTowerE \<lparr>lat = Num 0, lng = Num 1\<rparr>,
       RemoveTowerE 1]"
    by simp
  have e: "foldl handle initial
      [AddTowerE \<lparr>lat = Num 0, lng = Num 0\<rparr>, AddTowerE \<lparr>lat = Num 0, lng = Num 1\<rparr>,
       RemoveTowerE 1] =
      removeTower 1 (addTower \<lparr>lat = Num 0, lng = Num 1\<rparr> (addTower \<lparr>lat = Num 0, lng = Num 0\<rparr> initial))"
    by simp
  have t: "map id_t (towers (removeTower 1 (addTower \<lparr>lat = Num 0, lng = Num 1\<rparr> (addTower \<lparr>lat = Num 0, lng = Num 0\<rparr> initial)))) = [2]"
    by code_simp
  have u: "map id_t (towers (addTower \<lparr>lat = Num 1, lng = Num 1\<rparr> (removeTower 1 (addTower \<lparr>lat = Num 0, lng = Num 1\<rparr> (addTower \<lparr>lat = Num 0, lng = Num 0\<rparr> initial))))) = [2, 3]"
    by code_simp
  from addTower_id_from_max[OF k, of _ "\<lparr>lat = Num 1, lng = Num 1\<rparr>"] e t u
  show ?thesis by simp
qed

text \<open>
  The id of the highest tower, once freed, is given again: tower 3 is removed and the next
  tower added is tower 3.
\<close>

theorem addTower_reuses_freed_id:
  "map id_t (towers threeTowers) = [1, 2, 3] \<and>
   map id_t (towers (removeTower 3 threeTowers)) = [1, 2] \<and>
   map id_t (towers (addTower \<lparr>lat = Num 5, lng = Num 5\<rparr> (removeTower 3 threeTowers))) = [1, 2, 3]"
  by code_simp

subsection \<open>Matching frequencies\<close>

lemma tolerance_test_finite:
  "(jgt (jabs (jsub (Num fa) (Num fb))) (jmul (Num (1 / 1000000)) (jmax (Num fa) (Num fb)))) =
   (\<not> withinTolerance fa fb)"
  unfolding withinTolerance_def jsub_def jgt_def by (simp add: not_le)

text \<open>
  C2 (as the code has it): for two distinct towers of the store whose frequencies parse to
  finite numbers \<open>fa\<close> and \<open>fb\<close>, the second copy decides by relative
  tolerance (\<open>|fa - fb| \<le> 1e-6 * max(fa, fb)\<close>), both when \<open>createLink\<close> validates
  (\<open>canLink\<close>) and when \<open>updateTower\<close> decides whether a link between them stays;
  \<open>src/App.js\<close> decides by exact equality (\<open>fa = fb\<close>) in both places.
\<close>

theorem frequency_match_criteria:
  assumes "parseFreqHz (freqStr a) = Num fa" and "parseFreqHz (freqStr b) = Num fb"
    and "find (\<lambda>t. id_t t = a_id) (towers s) = Some a"
    and "find (\<lambda>t. id_t t = b_id) (towers s) = Some b"
    and "a_id \<noteq> b_id" and "aId l = a_id" and "bId l = b_id"
  shows "canLink a b = withinTolerance fa fb \<and>
     (snd (createLink a_id b_id s) = s\<lparr>message := ''Frequencies do not match''\<rparr>) =
       (\<not> withinTolerance fa fb) \<and>
     (updateTower_check (towers s) l = Some l) = withinTolerance fa fb \<and>
     (updateTower_check (towers s) l = None) = (\<not> withinTolerance fa fb) \<and>
     sameFrequency_App a b = (fa = fb) \<and>
     (snd (createLink_App a_id b_id s) = s\<lparr>message := ''Frequencies do not match''\<rparr>) =
       (fa \<noteq> fb) \<and>
     (updateTower_check_App (towers s) l = Some l) = (fa = fb) \<and>
     (updateTower_check_App (towers s) l = None) = (fa \<noteq> fb)"
proof -
  have c: "canLink a b = withinTolerance fa fb"
    using assms(1,2) by (simp add: canLink_def withinTolerance_def jsub_def)
  have e: "sameFrequency_App a b = (fa = fb)"
    using assms(1,2) by (simp add: sameFrequency_App_def jseq_def)
  have ne: "\<And>x m. s\<lparr>links := links s @ [x], linkId := linkId s + 1\<rparr> \<noteq> s\<lparr>message := m\<rparr>"
  proof
    fix x m assume "s\<lparr>links := links s @ [x], linkId := linkId s + 1\<rparr> = s\<lparr>message := m\<rparr>"
    then have "links (s\<lparr>links := links s @ [x], linkId := linkId s + 1\<rparr>) = links (s\<lparr>message := m\<rparr>)"
      by simp
    then show False by simp
  qed
  have nm: "s\<lparr>message := ''Link already exists''\<rparr> \<noteq> s\<lparr>message := ''Frequencies do not match''\<rparr>"
  proof
    assume "s\<lparr>message := ''Link already exists''\<rparr> = s\<lparr>message := ''Frequencies do not match''\<rparr>"
    then have "message (s\<lparr>message := ''Link already exists''\<rparr>) =
               message (s\<lparr>message := ''Frequencies do not match''\<rparr>)"
      by simp
    then show False by simp
  qed
  have c1: "(snd (createLink a_id b_id s) = s\<lparr>message := ''Frequencies do not match''\<rparr>) =
       (\<not> withinTolerance fa fb)"
    using assms(3,4,5) c ne nm by (simp add: createLink_def)
  have c2: "(snd (createLink_App a_id b_id s) = s\<lparr>message := ''Frequencies do not match''\<rparr>) =
       (fa \<noteq> fb)"
    using assms(3,4,5) e ne nm by (simp add: createLink_App_def sameFrequency_App_def jsne_def)
  have t: "updateTower_check (towers s) l = (if withinTolerance fa fb then Some l else None)"
    using assms(1-4,6,7)
    by (simp add: updateTower_check_def tolerance_test_finite del: jmul.simps jmax.simps)
  have t': "updateTower_check_App (towers s) l = (if fa = fb then Some l else None)"
    using assms(1-4,6,7) by (simp add: updateTower_check_App_def jsne_def jseq_def)
  have u1: "(updateTower_check (towers s) l = Some l) = withinTolerance fa fb"
    and u2: "(updateTower_check (towers s) l = None) = (\<not> withinTolerance fa fb)"
    by (simp_all add: t)
  have u3: "(updateTower_check_App (towers s) l = Some l) = (fa = fb)"
    and u4: "(updateTower_check_App (towers s) l = None) = (fa \<noteq> fb)"
    by (simp_all add: t')
  from c e c1 c2 u1 u2 u3 u4 show ?thesis by blast
qed

theorem frequency_match_criteria_witness:
  "withinTolerance 5000000000 5000000001 \<and>
   canLink \<lparr>lat = Num 0, lng = Num 0, id_t = 1, freqStr = ''5 GHz''\<rparr>
           \<lparr>lat = Num 0, lng = Num 1, id_t = 2, freqStr = ''5000000001 hz''\<rparr> \<and>
   snd (createLink 1 2 nearTowers) \<noteq> nearTowers\<lparr>message := ''Frequencies do not match''\<rparr> \<and>
   \<not> sameFrequency_App \<lparr>lat = Num 0, lng = Num 0, id_t = 1, freqStr = ''5 GHz''\<rparr>
           \<lparr>lat = Num 0, lng = Num 1, id_t = 2, freqStr = ''5000000001 hz''\<rparr>"
proof -
  have 1: "parseFreqHz (freqStr \<lparr>lat = Num 0, lng = Num 0, id_t = 1, freqStr = ''5 GHz''\<rparr>) = Num 5000000000"
    by code_simp
  have 2: "parseFreqHz (freqStr \<lparr>lat = Num 0, lng = Num 1, id_t = 2, freqStr = ''5000000001 hz''\<rparr>) = Num 5000000001"
    by code_simp
  have 3: "find (\<lambda>t. id_t t = 1) (towers nearTowers) = Some \<lparr>lat = Num 0, lng = Num 0, id_t = 1, freqStr = ''5 GHz''\<rparr>"
    by code_simp
  have 4: "find (\<lambda>t. id_t t = 2) (towers nearTowers) = Some \<lparr>lat = Num 0, lng = Num 1, id_t = 2, freqStr = ''5000000001 hz''\<rparr>"
    by code_simp
  have 5: "withinTolerance 5000000000 5000000001"
    by (simp add: withinTolerance_def)
  have 6: "aId \<lparr>id_l = 1, aId = 1, bId = 2, freqStr_l = ''5 GHz'', fresnel = None\<rparr> = 1"
     "bId \<lparr>id_l = 1, aId = 1, bId = 2, freqStr_l = ''5 GHz'', fresnel = None\<rparr> = 2" "(1::int) \<noteq> 2"
    by simp_all
  from frequency_match_criteria[OF 1 2 3 4 6(3) 6(1) 6(2)] 5
  show ?thesis by simp
qed

text \<open>
  In \<open>src/App.js\<close> two frequencies within the tolerance (\<open>5 GHz\<close> and
  \<open>5000000001 hz\<close>) do not match: \<open>createLink\<close> rejects the pair and
  \<open>updateTower\<close> removes the link between them.
\<close>

theorem App_compares_exactly:
  "map (\<lambda>t. parseFreqHz (freqStr t)) (towers nearTowers_App) = [Num 5000000000, Num 5000000001] \<and>
   withinTolerance 5000000000 5000000001 \<and>
   snd (createLink_App 1 2 nearTowers_App) = nearTowers_App\<lparr>message := ''Frequencies do not match''\<rparr> \<and>
   map (\<lambda>l. (aId l, bId l)) (links pair_App) = [(1, 2)] \<and>
   links (updateTower_App 2 (freqPatch ''5000000001 hz'') pair_App) = []"
  by code_simp

subsection \<open>\<open>createLink\<close>\<close>

text \<open>
  C3 (as the code has it): \<open>createLink\<close> never throws and returns \<open>undefined\<close> on
  every path, on success too. The classification shows in the state only: nothing changes
  for a self link or a missing tower, the message becomes \<open>Frequencies do not match\<close>
  for a mismatch and \<open>Link already exists\<close> for a link over the same unordered pair (in
  either orientation), and otherwise the new link is appended and the counter incremented.
\<close>

theorem createLink_classified_effect:
  "createLink a_id b_id s = (Undefined, effect (outcome canLink a_id b_id s) s) \<and>
   createLink_App a_id b_id s = (Undefined, effect (outcome sameFrequency_App a_id b_id s) s)"
  by (simp add: createLink_effect createLink_App_effect)

theorem createLink_classified_effect_witness:
  "outcome canLink 1 1 threeTowers = Rejected SELF_LINK \<and>
   createLink 1 1 threeTowers = (Undefined, threeTowers) \<and>
   outcome canLink 1 9 threeTowers = Rejected MISSING_TOWER \<and>
   createLink 1 9 threeTowers = (Undefined, threeTowers) \<and>
   outcome canLink 2 1 threeTowers = Rejected DUPLICATE_LINK \<and>
   createLink 2 1 threeTowers = (Undefined, threeTowers\<lparr>message := ''Link already exists''\<rparr>)"
proof -
  have "outcome canLink 1 1 threeTowers = Rejected SELF_LINK"
    and "outcome canLink 1 9 threeTowers = Rejected MISSING_TOWER"
    and "outcome canLink 2 1 threeTowers = Rejected DUPLICATE_LINK"
    by code_simp+
  with createLink_classified_effect[of 1 1 threeTowers]
    createLink_classified_effect[of 1 9 threeTowers]
    createLink_classified_effect[of 2 1 threeTowers]
  show ?thesis by (simp add: effect_def)
qed

text \<open>
  No call returns a classified rejection or the link: a self link, a missing tower and a
  duplicate pair return \<open>undefined\<close>, and so does the call that creates link 3.
\<close>

theorem createLink_returns_undefined:
  "fst (createLink 1 1 threeTowers) \<noteq> Rejected SELF_LINK \<and>
   fst (createLink 1 9 threeTowers) \<noteq> Rejected MISSING_TOWER \<and>
   fst (createLink 2 1 threeTowers) \<noteq> Rejected DUPLICATE_LINK \<and>
   fst (createLink 1 3 threeTowers) = Undefined \<and>
   map (\<lambda>l. (id_l l, aId l, bId l)) (links (snd (createLink 1 3 threeTowers))) =
     [(1, 1, 2), (2, 2, 3), (3, 1, 3)] \<and>
   fst (createLink_App 1 1 threeTowers_App) \<noteq> Rejected SELF_LINK \<and>
   fst (createLink_App 1 3 threeTowers_App) = Undefined"
  by code_simp

text \<open>
  C10: a rejected \<open>createLink\<close> (self link, missing tower, frequency mismatch or
  duplicate pair) leaves the towers, the links and the link-id counter as they were, in
  both files; only a call whose outcome is the created link changes them, by appending
  that link and incrementing the counter.
\<close>

theorem createLink_failure_atomic:
  "(outcome canLink a_id b_id s = Rejected r \<longrightarrow>
      towers (snd (createLink a_id b_id s)) = towers s \<and>
      links (snd (createLink a_id b_id s)) = links s \<and>
      linkId (snd (createLink a_id b_id s)) = linkId s) \<and>
   (outcome sameFrequency_App a_id b_id s = Rejected r \<longrightarrow>
      towers (snd (createLink_App a_id b_id s)) = towers s \<and>
      links (snd (createLink_App a_id b_id s)) = links s \<and>
      linkId (snd (createLink_App a_id b_id s)) = linkId s) \<and>
   (outcome canLink a_id b_id s = Created l \<longrightarrow>
      snd (createLink a_id b_id s) = s\<lparr>links := links s @ [l], linkId := linkId s + 1\<rparr>) \<and>
   (outcome sameFrequency_App a_id b_id s = Created l \<longrightarrow>
      snd (createLink_App a_id b_id s) = s\<lparr>links := links s @ [l], linkId := linkId s + 1\<rparr>) \<and>
   outcome canLink a_id b_id s \<noteq> Undefined \<and>
   outcome sameFrequency_App a_id b_id s \<noteq> Undefined"
  by (simp add: createLink_effect createLink_App_effect effect_rejected_frame effect_created
        outcome_not_Undefined)

theorem createLink_failure_atomic_witness:
  "outcome canLink 2 1 threeTowers = Rejected DUPLICATE_LINK \<and>
   towers (snd (createLink 2 1 threeTowers)) = towers threeTowers \<and>
   links (snd (createLink 2 1 threeTowers)) = links threeTowers \<and>
   linkId (snd (createLink 2 1 threeTowers)) = linkId threeTowers \<and>
   message (snd (createLink 2 1 threeTowers)) = ''Link already exists''"
proof -
  have r: "outcome canLink 2 1 threeTowers = Rejected DUPLICATE_LINK"
    by code_simp
  have m: "message (snd (createLink 2 1 threeTowers)) = ''Link already exists''"
    by code_simp
  from r createLink_failure_atomic[of 2 1 threeTowers DUPLICATE_LINK] m
  show ?thesis by blast
qed

subsection \<open>\<open>updateTower\<close> and \<open>removeTower\<close>\<close>



text \<open>
  C9: after \<open>removeTower i\<close> no tower of the store has the id \<open>i\<close> and no link of
  the store has \<open>i\<close> as an endpoint; the other towers and links stay.
\<close>

theorem removeTower_cascade:
  "i \<notin> id_t ` set (towers (removeTower i s)) \<and>
   (\<forall>l \<in> set (links (removeTower i s)). aId l \<noteq> i \<and> bId l \<noteq> i) \<and>
   towers (removeTower i s) = filter (\<lambda>t. id_t t \<noteq> i) (towers s) \<and>
   links (removeTower i s) = filter (\<lambda>l. aId l \<noteq> i \<and> bId l \<noteq> i) (links s)"
  by (auto simp: removeTower_def)

theorem removeTower_cascade_witness:
  "map id_t (towers threeTowers) = [1, 2, 3] \<and>
   map (\<lambda>l. (aId l, bId l)) (links threeTowers) = [(1, 2), (2, 3)] \<and>
   1 \<notin> id_t ` set (towers (removeTower 1 threeTowers)) \<and>
   map id_t (towers (removeTower 1 threeTowers)) = [2, 3] \<and>
   map (\<lambda>l. (aId l, bId l)) (links (removeTower 1 threeTowers)) = [(2, 3)]"
proof -
  have "1 \<notin> id_t ` set (towers (removeTower 1 threeTowers))"
    using removeTower_cascade[of 1 threeTowers] by blast
  moreover have "map id_t (towers threeTowers) = [1, 2, 3]"
    by code_simp
  moreover have "map (\<lambda>l. (aId l, bId l)) (links threeTowers) = [(1, 2), (2, 3)]"
    by code_simp
  moreover have "map id_t (towers (removeTower 1 threeTowers)) = [2, 3]"
    by code_simp
  moreover have "map (\<lambda>l. (aId l, bId l)) (links (removeTower 1 threeTowers)) = [(2, 3)]"
    by code_simp
  ultimately show ?thesis by blast
qed

section \<open>The claims about frequencies\<close>

subsection \<open>Reading a frequency\<close>




lemma jmul_NaN: "jmul NaN y = NaN"
  by simp





lemma isDigit_not_white: "isDigit c \<Longrightarrow> \<not> isWhite c"
  by (auto simp: isDigit_def isWhite_def)

lemma lowerChar_digit: "isDigit c \<Longrightarrow> lowerChar c = c"
  by (auto simp: isDigit_def lowerChar_def)







lemma takeWhile_hd: "s = [] \<or> \<not> P (hd s) \<Longrightarrow> takeWhile P s = []"
  by (cases s) auto


















subsection \<open>The Fresnel radius\<close>

lemma jseq_zero: "jseq x (Num 0) = (x = Num 0)"
  by (cases x) (simp_all add: jseq_def)

lemma sqrt_1500: "38.72 < sqrt 1500 \<and> sqrt 1500 < 38.74"
proof -
  have "(38.72::real) = sqrt (38.72 ^ 2)" "(38.74::real) = sqrt (38.74 ^ 2)"
    by simp_all
  moreover have "(38.72::real) ^ 2 < 1500" "1500 < (38.74::real) ^ 2"
    by (simp_all add: power2_eq_square)
  ultimately show ?thesis
    by (metis real_sqrt_less_iff)
qed

text \<open>
  C8: \<open>fresnelRadius(wavelength, d1, d2)\<close> is \<open>sqrt(wavelength * d1 * d2 / (d1 + d2))\<close>
  when \<open>d1 + d2\<close> is not zero and exactly \<open>0\<close> when it is; the degenerate case is a
  value, not an error (the square root of a negative number is \<open>NaN\<close>, as
  \<open>Math.sqrt\<close> has it).
\<close>

theorem fresnelRadius_formula:
  "fresnelRadius (Num lambda) (Num d1) (Num d2) =
     (if d1 + d2 = 0 then Num 0 else jsqrt (Num (lambda * d1 * d2 / (d1 + d2)))) \<and>
   (0 \<le> lambda * d1 * d2 / (d1 + d2) \<longrightarrow> d1 + d2 \<noteq> 0 \<longrightarrow>
      fresnelRadius (Num lambda) (Num d1) (Num d2) = Num (sqrt (lambda * d1 * d2 / (d1 + d2)))) \<and>
   fresnelRadius l x y =
     (if jadd x y = Num 0 then Num 0 else jsqrt (jdiv (jmul (jmul l x) y) (jadd x y)))"
  by (simp add: fresnelRadius_def jseq_zero)

theorem fresnelRadius_formula_witness:
  "fresnelRadius (Num 0.06) (Num 50000) (Num 50000) = Num (sqrt 1500) \<and>
   38.72 < sqrt 1500 \<and> sqrt 1500 < 38.74 \<and>
   fresnelRadius (Num 0.06) (Num 0) (Num 0) = Num 0 \<and>
   fresnelRadius (Num 0.06) (Num 7) (Num (- 7)) = Num 0"
  using fresnelRadius_formula[where lambda = "0.06" and ?d1.0 = 50000 and ?d2.0 = 50000]
    fresnelRadius_formula[where lambda = "0.06" and ?d1.0 = 0 and ?d2.0 = 0]
    fresnelRadius_formula[where lambda = "0.06" and ?d1.0 = 7 and ?d2.0 = "- 7"] sqrt_1500
  by simp

section \<open>The claims about the ellipse\<close>

subsection \<open>The loop\<close>

lemma ellipseLoop_eq:
  "i \<le> Suc steps \<Longrightarrow> ellipseLoop body steps i pts = pts @ map body [i..<Suc steps]"
proof (induction body steps i pts rule: ellipseLoop.induct)
  case (1 body steps i pts)
  show ?case
  proof (cases "i \<le> steps")
    case True
    then have "ellipseLoop body steps i pts = ellipseLoop body steps (Suc i) (pts @ [body i])"
      by (simp add: ellipseLoop.simps[of body steps i])
    also have "\<dots> = (pts @ [body i]) @ map body [Suc i..<Suc steps]"
      using True by (intro "1.IH") auto
    also have "\<dots> = pts @ map body [i..<Suc steps]"
      using True by (simp add: upt_conv_Cons del: upt_Suc)
    finally show ?thesis .
  next
    case False
    with "1.prems" have "i = Suc steps" by simp
    then show ?thesis
      by (simp add: ellipseLoop.simps[of _ _ "Suc steps"])
  qed
qed

lemma generateFresnelEllipse_map:
  "generateFresnelEllipse lat1 lon1 lat2 lon2 r steps =
     map (ellipsePoint
            (jdiv (distanceMeters \<lparr>lat = lat1, lng = lon1\<rparr> \<lparr>lat = lat2, lng = lon2\<rparr>) (Num 2)) r
            (jdiv (jadd lat1 lat2) (Num 2)) (jdiv (jadd lon1 lon2) (Num 2))
            (bearingBetween \<lparr>lat = lat1, lng = lon1\<rparr> \<lparr>lat = lat2, lng = lon2\<rparr>) steps)
         [0..<Suc steps]"
  unfolding generateFresnelEllipse_def Let_def by (simp add: ellipseLoop_eq del: upt_Suc)

lemma generateFresnelEllipse_App_map:
  "generateFresnelEllipse_App lat1 lon1 lat2 lon2 r steps =
     map (ellipsePoint
            (jdiv (jdiv (distanceMeters \<lparr>lat = lat1, lng = lon1\<rparr> \<lparr>lat = lat2, lng = lon2\<rparr>)
               (Num 2)) (Num 2000))
            (jdiv r (Num 50))
            (jdiv (jadd lat1 lat2) (Num 2)) (jdiv (jadd lon1 lon2) (Num 2))
            (bearingBetween \<lparr>lat = lat1, lng = lon1\<rparr> \<lparr>lat = lat2, lng = lon2\<rparr>) steps)
         [0..<Suc steps]"
  unfolding generateFresnelEllipse_App_def Let_def by (simp add: ellipseLoop_eq del: upt_Suc)

lemma angle_eq: "jmul (jmul q (Num 2)) Math_PI = jmul q (Num (2 * pi))"
  by (cases q) (simp_all add: Math_PI_def)

lemma ellipsePoint_sample:
  "ellipsePoint sM sm (jdiv (jadd lat1 lat2) (Num 2)) (jdiv (jadd lon1 lon2) (Num 2))
     (bearingBetween \<lparr>lat = lat1, lng = lon1\<rparr> \<lparr>lat = lat2, lng = lon2\<rparr>) steps i =
   ellipseSample lat1 lon1 lat2 lon2 sM sm steps i"
  by (simp only: ellipsePoint_def ellipseSample_def Let_def angle_eq)

lemma nth_samples: "i \<le> steps \<Longrightarrow> map f [0..<Suc steps] ! i = f i"
  by (simp del: upt_Suc)

subsection \<open>Finite inputs give points on the globe\<close>



lemma haversine_range:
  fixes x1 x2 dx dy :: real
  assumes dx: "dx = x2 - x1"
  defines "v \<equiv> sin (dx / 2) * sin (dx / 2) + cos x1 * cos x2 * sin (dy / 2) * sin (dy / 2)"
  shows "0 \<le> v \<and> v \<le> 1"
proof -
  define A where "A = (sin ((x2 - x1) / 2))\<^sup>2"
  define S where "S = (sin (dy / 2))\<^sup>2"
  define C where "C = cos x1 * cos x2"
  have v: "v = A + C * S"
    by (simp add: v_def A_def S_def C_def dx power2_eq_square algebra_simps)
  have S: "0 \<le> S" "S \<le> 1"
    by (simp_all add: S_def abs_square_le_1)
  have "cos (2 * ((x2 - x1) / 2)) = 1 - 2 * (sin ((x2 - x1) / 2))\<^sup>2"
    by (rule cos_double_sin)
  moreover have "2 * ((x2 - x1) / 2) = x2 - x1"
    by simp
  ultimately have "cos (x2 - x1) = 1 - 2 * A"
    by (simp only: A_def)
  then have A: "A = (1 - cos (x2 - x1)) / 2"
    by simp
  have A01: "0 \<le> A" "A \<le> 1"
    by (simp_all add: A_def abs_square_le_1)
  have AC: "A + C = (1 + cos (x1 + x2)) / 2"
    unfolding A C_def cos_diff cos_add by (simp add: field_simps)
  have "0 \<le> 1 + cos (x1 + x2)"
    using cos_ge_minus_one[of "x1 + x2"] by linarith
  then have "0 \<le> (1 + cos (x1 + x2)) / 2" "(1 + cos (x1 + x2)) / 2 \<le> 1"
    by simp_all
  then have AC01: "0 \<le> A + C" "A + C \<le> 1"
    by (simp_all only: AC)
  define B where "B = A + C"
  have B01: "0 \<le> B" "B \<le> 1"
    using AC01 by (simp_all add: B_def)
  have e: "A + C * S = (1 - S) * A + S * B"
    by (simp add: B_def algebra_simps)
  have "0 \<le> (1 - S) * A" "0 \<le> S * B"
    using S A01 B01 by simp_all
  then have lo: "0 \<le> (1 - S) * A + S * B"
    by linarith
  have "(1 - S) * A \<le> (1 - S) * 1" "S * B \<le> S * 1"
    using S A01 B01 by (intro mult_left_mono; simp)+
  then have "(1 - S) * A \<le> 1 - S" "S * B \<le> S"
    by simp_all
  then have hi: "(1 - S) * A + S * B \<le> 1"
    by linarith
  show ?thesis
    using lo hi by (simp add: v e)
qed

lemma jdiv_180: "jdiv (Num a) (Num 180) = Num (a / 180)"
  by simp

lemma jdiv_2: "jdiv (Num a) (Num 2) = Num (a / 2)"
  by simp

lemma jdiv_R: "jdiv (Num a) (Num 6371000) = Num (a / 6371000)"
  by simp

lemma jdiv_pi: "jdiv (Num a) (Num pi) = Num (a / pi)"
  by simp

lemma jsub_Num: "jsub (Num a) (Num b) = Num (a - b)"
  by (simp add: jsub_def)

lemmas num_steps = Let_def Math_PI_def latlng.select_convs jsub_Num jdiv_180 jdiv_2 jdiv_R jdiv_pi
  jmul.simps(1) jadd.simps(1) jsin.simps(1) jcos.simps(1) jatan2.simps(1)

lemma distanceMeters_value:
  assumes "lat A = Num a1" "lng A = Num o1" "lat B = Num a2" "lng B = Num o2"
  shows "\<exists>v. 0 \<le> v \<and> v \<le> 1 \<and>
      v = sin ((a2 - a1) * pi / 180 / 2) * sin ((a2 - a1) * pi / 180 / 2) +
          cos (a1 * pi / 180) * cos (a2 * pi / 180) * sin ((o2 - o1) * pi / 180 / 2) *
          sin ((o2 - o1) * pi / 180 / 2) \<and>
      distanceMeters A B = Num (6371000 * (2 * atan2 (sqrt v) (sqrt (1 - v))))"
proof -
  define v where "v = sin ((a2 - a1) * pi / 180 / 2) * sin ((a2 - a1) * pi / 180 / 2) +
      cos (a1 * pi / 180) * cos (a2 * pi / 180) * sin ((o2 - o1) * pi / 180 / 2) *
      sin ((o2 - o1) * pi / 180 / 2)"
  have r: "0 \<le> v \<and> v \<le> 1"
    unfolding v_def
    by (rule haversine_range) (simp add: left_diff_distrib diff_divide_distrib)
  then have q: "jsqrt (Num v) = Num (sqrt v)" "jsqrt (Num (1 - v)) = Num (sqrt (1 - v))"
    by simp_all
  have "distanceMeters A B =
      jmul (Num 6371000) (jmul (Num 2) (jatan2 (jsqrt (Num v)) (jsqrt (Num (1 - v)))))"
    by (simp only: distanceMeters_def assms v_def num_steps)
  then have "distanceMeters A B = Num (6371000 * (2 * atan2 (sqrt v) (sqrt (1 - v))))"
    by (simp only: q num_steps)
  with r v_def show ?thesis
    by blast
qed

lemma distance_one_degree:
  assumes "lat A = Num 0" "lng A = Num 0" "lat B = Num 0" "lng B = Num 1"
  shows "\<exists>d. 0 < d \<and> distanceMeters A B = Num d"
proof -
  obtain v where v: "0 \<le> v" "v \<le> 1"
    and e: "v = sin ((0 - 0) * pi / 180 / 2) * sin ((0 - 0) * pi / 180 / 2) +
          cos (0 * pi / 180) * cos (0 * pi / 180) * sin ((1 - 0) * pi / 180 / 2) *
          sin ((1 - 0) * pi / 180 / 2)"
    and d: "distanceMeters A B = Num (6371000 * (2 * atan2 (sqrt v) (sqrt (1 - v))))"
    using distanceMeters_value[OF assms] by blast
  have e': "v = sin (pi / 360) * sin (pi / 360)"
    using e by simp
  have s: "0 < sin (pi / 360)"
    using pi_gt_zero by (intro sin_gt_zero) simp_all
  have c: "0 < cos (pi / 360)"
    using pi_gt_zero by (intro cos_gt_zero_pi) simp_all
  have "1 - v = cos (pi / 360) * cos (pi / 360)"
    using sin_cos_squared_add[of "pi / 360"] by (simp add: e' power2_eq_square)
  then have "0 < 1 - v"
    using c by simp
  moreover have "0 < v"
    using s by (simp add: e')
  ultimately have "0 < atan2 (sqrt v) (sqrt (1 - v))"
    by (simp add: atan2_def zero_less_arctan_iff)
  then show ?thesis
    using d by simp
qed






subsection \<open>Special values\<close>

lemma jmul_NaN_right: "jmul x NaN = NaN"
  by (cases x) simp_all

lemma jadd_NaN_right: "jadd x NaN = NaN"
  by (cases x) simp_all

lemma jdiv_NaN_right: "jdiv x NaN = NaN"
  by (cases x) simp_all


lemma jsub_NaN_left: "jsub NaN x = NaN"
  by (simp add: jsub_def)

lemma destPoint_NaN_dist: "destPoint la lo b NaN = (NaN, NaN)"
  by (simp add: destPoint_def Let_def jmul_NaN_right jadd_NaN_right jsub_NaN_left)


lemma ellipsePoint_PInf_0:
  "0 < steps \<Longrightarrow> ellipsePoint sM PInf cla clo b steps 0 = (NaN, NaN)"
  by (simp add: ellipsePoint_def Let_def Math_PI_def destPoint_NaN_dist)


lemma distance_origin:
  "distanceMeters \<lparr>lat = Num 0, lng = Num 0\<rparr> \<lparr>lat = Num 0, lng = Num 0\<rparr> = Num 0"
  by (simp add: distanceMeters_def Let_def Math_PI_def jsub_def atan2_def)

lemma bearing_origin:
  "bearingBetween \<lparr>lat = Num 0, lng = Num 0\<rparr> \<lparr>lat = Num 0, lng = Num 0\<rparr> = Num 0"
  by (simp add: bearingBetween_def Let_def Math_PI_def jsub_def atan2_def trunc_def)

lemma destPoint_origin: "destPoint (Num 0) (Num 0) (Num 0) (Num 0) = (Num 0, Num 0)"
  by (simp add: destPoint_def Let_def Math_PI_def jsub_def atan2_def)

lemma destPoint_east:
  "destPoint (Num 0) (Num 0) (Num 90) (Num y) =
     (Num 0, Num (atan2 (sin (y / 6371000)) (cos (y / 6371000)) * 180 / pi))"
  by (simp add: destPoint_def Let_def Math_PI_def jsub_def)

lemma atan2_quarter: "atan2 (sin (pi / 2)) (cos (pi / 2)) = pi / 2"
  by (simp add: atan2_def)

lemma atan2_small:
  assumes "- (pi / 2) < t" "t < pi / 2"
  shows "atan2 (sin t) (cos t) = t"
proof -
  have "0 < cos t"
    using assms by (rule cos_gt_zero_pi)
  then have "atan2 (sin t) (cos t) = arctan (tan t)"
    by (simp add: atan2_def tan_def)
  also have "\<dots> = t"
    using assms by (rule arctan_tan)
  finally show ?thesis .
qed

lemma sample_quarter:
  "ellipseSample (Num 0) (Num 0) (Num 0) (Num 0) (Num 0) (Num y) 4 1 =
     (Num 0, Num (atan2 (sin (y / 6371000)) (cos (y / 6371000)) * 180 / pi))"
proof -
  have a: "jmul (jdiv (Num (real 1)) (Num (real 4))) (Num (2 * pi)) = Num (pi / 2)"
    by simp
  show ?thesis
    unfolding ellipseSample_def Let_def a bearing_origin
    by (simp add: destPoint_origin destPoint_east)
qed

lemma zeroHertz_state:
  "towers zeroHertz =
     [\<lparr>lat = Num 0, lng = Num 0, id_t = 1, freqStr = ''0 hz''\<rparr>,
      \<lparr>lat = Num 0, lng = Num 1, id_t = 2, freqStr = ''0 hz''\<rparr>] \<and>
   links zeroHertz = [\<lparr>id_l = 1, aId = 1, bId = 2, freqStr_l = ''0 hz'', fresnel = None\<rparr>]"
  by code_simp

lemma fresnel_zero_hertz:
  assumes "0 < d"
  shows "fresnelRadius (jdiv (Num 300000000) (Num 0)) (jdiv (Num d) (Num 2)) (jdiv (Num d) (Num 2)) = PInf"
  using assms by (simp add: fresnelRadius_def jseq_def)

subsection \<open>The samples\<close>

text \<open>
  C4 (as the code has it): for every sample index \<open>i\<close> in \<open>[0, steps]\<close> the generator
  emits the doubly projected point of the specification, about the degree-wise midpoint
  and along the bearing from \<open>a\<close> to \<open>b\<close>. The generator of the second copy takes
  \<open>semiMajor = distance(a, b) / 2\<close> and \<open>semiMinor = r\<close>, in metres;
  the generator of \<open>src/App.js\<close> shrinks both: \<open>semiMajor = distance(a, b) / 2 / 2000\<close>
  and \<open>semiMinor = r / 50\<close>.
\<close>

theorem ellipse_samples:
  "i \<le> steps \<longrightarrow>
     generateFresnelEllipse lat1 lon1 lat2 lon2 r steps ! i =
       ellipseSample lat1 lon1 lat2 lon2
         (jdiv (distanceMeters \<lparr>lat = lat1, lng = lon1\<rparr> \<lparr>lat = lat2, lng = lon2\<rparr>) (Num 2)) r
         steps i \<and>
     generateFresnelEllipse_App lat1 lon1 lat2 lon2 r steps ! i =
       ellipseSample lat1 lon1 lat2 lon2
         (jdiv (jdiv (distanceMeters \<lparr>lat = lat1, lng = lon1\<rparr> \<lparr>lat = lat2, lng = lon2\<rparr>)
            (Num 2)) (Num 2000))
         (jdiv r (Num 50)) steps i"
proof (intro impI conjI)
  assume i: "i \<le> steps"
  show "generateFresnelEllipse lat1 lon1 lat2 lon2 r steps ! i =
       ellipseSample lat1 lon1 lat2 lon2
         (jdiv (distanceMeters \<lparr>lat = lat1, lng = lon1\<rparr> \<lparr>lat = lat2, lng = lon2\<rparr>) (Num 2)) r
         steps i"
    by (simp only: generateFresnelEllipse_map nth_samples[OF i] ellipsePoint_sample)
  show "generateFresnelEllipse_App lat1 lon1 lat2 lon2 r steps ! i =
       ellipseSample lat1 lon1 lat2 lon2
         (jdiv (jdiv (distanceMeters \<lparr>lat = lat1, lng = lon1\<rparr> \<lparr>lat = lat2, lng = lon2\<rparr>)
            (Num 2)) (Num 2000))
         (jdiv r (Num 50)) steps i"
    by (simp only: generateFresnelEllipse_App_map nth_samples[OF i] ellipsePoint_sample)
qed

theorem ellipse_samples_witness:
  "generateFresnelEllipse (Num 0) (Num 0) (Num 0) (Num 0) (Num (6371000 * pi / 2)) 4 ! 1 =
     (Num 0, Num 90) \<and>
   generateFresnelEllipse_App (Num 0) (Num 0) (Num 0) (Num 0) (Num (6371000 * pi / 2)) 4 ! 1 =
     ellipseSample (Num 0) (Num 0) (Num 0) (Num 0) (Num 0) (Num (6371000 * pi / 100)) 4 1"
proof -
  have i: "(1::nat) \<le> 4"
    by simp
  note T = ellipse_samples[of 1 4 "Num 0" "Num 0" "Num 0" "Num 0" "Num (6371000 * pi / 2)"]
  have 1: "generateFresnelEllipse (Num 0) (Num 0) (Num 0) (Num 0) (Num (6371000 * pi / 2)) 4 ! 1 =
     ellipseSample (Num 0) (Num 0) (Num 0) (Num 0) (Num 0) (Num (6371000 * pi / 2)) 4 1"
    using T i by (simp add: distance_origin)
  have 2: "generateFresnelEllipse_App (Num 0) (Num 0) (Num 0) (Num 0) (Num (6371000 * pi / 2)) 4 ! 1 =
     ellipseSample (Num 0) (Num 0) (Num 0) (Num 0) (Num 0) (Num (6371000 * pi / 100)) 4 1"
    using T i by (simp add: distance_origin)
  have "ellipseSample (Num 0) (Num 0) (Num 0) (Num 0) (Num 0) (Num (6371000 * pi / 2)) 4 1 =
      (Num 0, Num (atan2 (sin (pi / 2)) (cos (pi / 2)) * 180 / pi))"
    by (simp only: sample_quarter) simp
  also have "\<dots> = (Num 0, Num 90)"
    by (simp only: atan2_quarter) simp
  finally show ?thesis
    using 1 2 by simp
qed

text \<open>
  With both endpoints at the origin, a radius of a quarter of the meridian and four steps,
  the sample of index 1 lies at longitude 90 by the specification's axes; \<open>src/App.js\<close>
  puts it at longitude 1.8.
\<close>

theorem App_axes_are_shrunk:
  "generateFresnelEllipse_App (Num 0) (Num 0) (Num 0) (Num 0) (Num (6371000 * pi / 2)) 4 ! 1 =
     (Num 0, Num (9 / 5)) \<and>
   ellipseSample (Num 0) (Num 0) (Num 0) (Num 0)
     (jdiv (distanceMeters \<lparr>lat = Num 0, lng = Num 0\<rparr> \<lparr>lat = Num 0, lng = Num 0\<rparr>) (Num 2))
     (Num (6371000 * pi / 2)) 4 1 = (Num 0, Num 90) \<and>
   generateFresnelEllipse_App (Num 0) (Num 0) (Num 0) (Num 0) (Num (6371000 * pi / 2)) 4 ! 1 \<noteq>
   ellipseSample (Num 0) (Num 0) (Num 0) (Num 0)
     (jdiv (distanceMeters \<lparr>lat = Num 0, lng = Num 0\<rparr> \<lparr>lat = Num 0, lng = Num 0\<rparr>) (Num 2))
     (Num (6371000 * pi / 2)) 4 1"
proof -
  have i: "(1::nat) \<le> 4"
    by simp
  have s: "- (pi / 2) < pi / 100" "pi / 100 < pi / 2"
    using pi_gt_zero by simp_all
  have "generateFresnelEllipse_App (Num 0) (Num 0) (Num 0) (Num 0) (Num (6371000 * pi / 2)) 4 ! 1 =
      ellipseSample (Num 0) (Num 0) (Num 0) (Num 0) (Num 0) (Num (6371000 * pi / 100)) 4 1"
    by (simp only: generateFresnelEllipse_App_map nth_samples[OF i] ellipsePoint_sample
          distance_origin) simp
  also have "\<dots> = (Num 0, Num (atan2 (sin (pi / 100)) (cos (pi / 100)) * 180 / pi))"
    by (simp only: sample_quarter) simp
  also have "\<dots> = (Num 0, Num (9 / 5))"
    by (simp add: atan2_small[OF s])
  finally have 1: "generateFresnelEllipse_App (Num 0) (Num 0) (Num 0) (Num 0)
      (Num (6371000 * pi / 2)) 4 ! 1 = (Num 0, Num (9 / 5))" .
  have "ellipseSample (Num 0) (Num 0) (Num 0) (Num 0)
     (jdiv (distanceMeters \<lparr>lat = Num 0, lng = Num 0\<rparr> \<lparr>lat = Num 0, lng = Num 0\<rparr>) (Num 2))
     (Num (6371000 * pi / 2)) 4 1 =
     ellipseSample (Num 0) (Num 0) (Num 0) (Num 0) (Num 0) (Num (6371000 * pi / 2)) 4 1"
    by (simp add: distance_origin)
  also have "\<dots> = (Num 0, Num (atan2 (sin (pi / 2)) (cos (pi / 2)) * 180 / pi))"
    by (simp only: sample_quarter) simp
  also have "\<dots> = (Num 0, Num 90)"
    by (simp only: atan2_quarter) simp
  finally have 2: "ellipseSample (Num 0) (Num 0) (Num 0) (Num 0)
     (jdiv (distanceMeters \<lparr>lat = Num 0, lng = Num 0\<rparr> \<lparr>lat = Num 0, lng = Num 0\<rparr>) (Num 2))
     (Num (6371000 * pi / 2)) 4 1 = (Num 0, Num 90)" .
  show ?thesis
    unfolding 1 2 by simp
qed

subsection \<open>The ring\<close>




text \<open>
  The store reaches an infinite radius: two towers one degree apart, both set to
  \<open>0 hz\<close>, can be linked (the frequencies are equal), the wavelength is
  \<open>3e8 / 0 = Infinity\<close>, and the polygon that \<open>onLinkClick\<close> caches starts with a
  \<open>NaN\<close> point.
\<close>

theorem zero_hertz_polygon:
  "map (\<lambda>l. map_option (\<lambda>f. (rMidMeters f, polygonPoints f ! 0)) (fresnel l))
     (links (onLinkClick (hd (links zeroHertz)) zeroHertz)) = [Some (PInf, (NaN, NaN))]"
proof -
  have f0: "parseFreqHz ''0 hz'' = Num 0"
    by code_simp
  obtain d where d: "0 < d"
    "distanceMeters \<lparr>lat = Num 0, lng = Num 0, id_t = 1, freqStr = ''0 hz''\<rparr>
       \<lparr>lat = Num 0, lng = Num 1, id_t = 2, freqStr = ''0 hz''\<rparr> = Num d"
    using distance_one_degree[of "\<lparr>lat = Num 0, lng = Num 0, id_t = 1, freqStr = ''0 hz''\<rparr>"
        "\<lparr>lat = Num 0, lng = Num 1, id_t = 2, freqStr = ''0 hz''\<rparr>"]
    by auto
  have c: "computeSimpleFresnel \<lparr>lat = Num 0, lng = Num 0, id_t = 1, freqStr = ''0 hz''\<rparr>
       \<lparr>lat = Num 0, lng = Num 1, id_t = 2, freqStr = ''0 hz''\<rparr> (Num 0) = (Num d, PInf)"
    unfolding computeSimpleFresnel_def Let_def d(2) fresnel_zero_hertz[OF d(1)] by simp
  have z: "(0::nat) \<le> 180"
    by simp
  have g: "generateFresnelEllipse (Num 0) (Num 0) (Num 0) (Num 1) PInf 180 ! 0 = (NaN, NaN)"
    by (simp only: generateFresnelEllipse_map nth_samples[OF z]) (simp add: ellipsePoint_PInf_0)
  show ?thesis
    using zeroHertz_state
    by (simp add: onLinkClick_def onLinkClick_with_def Let_def f0 c g)
qed

end
